theory Spec2Isabelle
  imports Complex_Main
begin

section \<open>Python values and exceptions\<close>

text \<open>
  The service is one Python module, \<^verbatim>\<open>docmate_service.py\<close>. The handler of
  \<^verbatim>\<open>POST /query\<close> works on whatever \<^verbatim>\<open>request.get_json()\<close> returns, so the values of
  the model are the Python values a JSON document parses to: \<^verbatim>\<open>None\<close>, booleans, integers,
  floats, strings, lists and dictionaries (an association list in key order; a lookup
  takes the first entry of a key).
\<close>

datatype json =
    JNull
  | JBool bool
  | JInt int
  | JFloat real
  | JStr string
  | JArr "json list"
  | JObj "(string \<times> json) list"

text \<open>
  Exceptions are values. Every class below is a subclass of Python's \<^verbatim>\<open>Exception\<close>, which
  is what the two \<^verbatim>\<open>except Exception\<close> clauses of the module catch; \<open>LibraryError\<close> stands
  for any such exception raised inside Flask, PyGithub, llama-index or the OpenAI client.
  The second argument is the message, \<^verbatim>\<open>str(e)\<close>. Messages that the interpreter itself
  writes are given as CPython 3.12 words them.
\<close>

datatype exn_class =
  ValueError | IndexError | KeyError | TypeError | AttributeError | UnboundLocalError | LibraryError

datatype exn = Exn exn_class string

fun str_exn :: "exn \<Rightarrow> string" where
  "str_exn (Exn c msg) = msg"

definition quoted :: "string \<Rightarrow> string" where
  "quoted s = [CHR 0x27] @ s @ [CHR 0x27]"

fun py_type_name :: "json \<Rightarrow> string" where
  "py_type_name JNull = ''NoneType''"
| "py_type_name (JBool b) = ''bool''"
| "py_type_name (JInt n) = ''int''"
| "py_type_name (JFloat x) = ''float''"
| "py_type_name (JStr s) = ''str''"
| "py_type_name (JArr xs) = ''list''"
| "py_type_name (JObj kvs) = ''dict''"

text \<open>Truth value of a Python value, as \<^verbatim>\<open>not data\<close> tests it.\<close>

fun truthy :: "json \<Rightarrow> bool" where
  "truthy JNull = False"
| "truthy (JBool b) = b"
| "truthy (JInt n) = (n \<noteq> 0)"
| "truthy (JFloat x) = (x \<noteq> 0)"
| "truthy (JStr s) = (s \<noteq> [])"
| "truthy (JArr xs) = (xs \<noteq> [])"
| "truthy (JObj kvs) = (kvs \<noteq> [])"

text \<open>\<^verbatim>\<open>sub in s\<close> on two strings: \<open>sub\<close> occurs in \<open>s\<close> as a contiguous run.\<close>

fun is_substring :: "string \<Rightarrow> string \<Rightarrow> bool" where
  "is_substring sub [] = (sub = [])"
| "is_substring sub (c # cs) = (take (length sub) (c # cs) = sub \<or> is_substring sub cs)"

text \<open>
  \<^verbatim>\<open>key in data\<close> for a string key: key membership on a dictionary, element membership on
  a list, substring test on a string, and a TypeError on a value that is no container.
\<close>

fun py_contains :: "string \<Rightarrow> json \<Rightarrow> exn + bool" where
  "py_contains key (JObj kvs) = Inr (key \<in> fst ` set kvs)"
| "py_contains key (JArr xs) = Inr (JStr key \<in> set xs)"
| "py_contains key (JStr s) = Inr (is_substring key s)"
| "py_contains key v =
     Inl (Exn TypeError (''argument of type '' @ quoted (py_type_name v) @ '' is not iterable''))"

text \<open>\<^verbatim>\<open>data[key]\<close> for a string key.\<close>

fun py_getitem :: "json \<Rightarrow> string \<Rightarrow> exn + json" where
  "py_getitem (JObj kvs) key =
     (case map_of kvs key of None \<Rightarrow> Inl (Exn KeyError (quoted key)) | Some v \<Rightarrow> Inr v)"
| "py_getitem (JArr xs) key =
     Inl (Exn TypeError ''list indices must be integers or slices, not str'')"
| "py_getitem (JStr s) key =
     Inl (Exn TypeError (''string indices must be integers, not '' @ quoted ''str''))"
| "py_getitem v key =
     Inl (Exn TypeError (quoted (py_type_name v) @ '' object is not subscriptable''))"

text \<open>\<^verbatim>\<open>data.get(key, default)\<close>: only a dictionary has the method.\<close>

fun py_get :: "json \<Rightarrow> string \<Rightarrow> json \<Rightarrow> exn + json" where
  "py_get (JObj kvs) key dflt =
     (case map_of kvs key of None \<Rightarrow> Inr dflt | Some v \<Rightarrow> Inr v)"
| "py_get v key dflt =
     Inl (Exn AttributeError
       (quoted (py_type_name v) @ '' object has no attribute '' @ quoted ''get''))"

text \<open>
  \<^verbatim>\<open>s.split(sep)\<close> with a one-character separator: the pieces between the separators,
  empty pieces included, so the result always has at least one element.
\<close>

fun py_split :: "char \<Rightarrow> string \<Rightarrow> string list" where
  "py_split sep [] = [[]]"
| "py_split sep (c # cs) =
     (if c = sep then [] # py_split sep cs
      else (c # hd (py_split sep cs)) # tl (py_split sep cs))"

text \<open>\<^verbatim>\<open>sep.join(xs)\<close>.\<close>

fun py_join :: "string \<Rightarrow> string list \<Rightarrow> string" where
  "py_join sep [] = []"
| "py_join sep [x] = x"
| "py_join sep (x # y # ys) = x @ sep @ py_join sep (y # ys)"

section \<open>External collaborators, effects and state\<close>

text \<open>
  Objects of the external libraries (the PyGithub client, a repository, the reader, a
  document, a vector index, the LLM, a query engine) are opaque to the module; the model
  holds a reference to each, and two references are the same object exactly when they are
  equal. A vector index defines neither \<^verbatim>\<open>__bool__\<close> nor \<^verbatim>\<open>__len__\<close>, so \<^verbatim>\<open>if index\<close>
  is the test that the value is not \<^verbatim>\<open>None\<close>.
\<close>

type_synonym obj = nat

text \<open>
  What \<^verbatim>\<open>query_engine.query\<close> returns, as far as the handler reads it: \<^verbatim>\<open>str(response)\<close>
  and, for each element of \<^verbatim>\<open>response.source_nodes\<close> in order, its \<^verbatim>\<open>node.text\<close>.
\<close>

record query_result =
  answer :: string
  source_nodes :: "string list"

text \<open>
  The environment of the process and the libraries the module calls, none of which is
  code of the module. A call either raises (\<open>Inl\<close>) or returns (\<open>Inr\<close>). \<open>get_branch\<close>
  returns \<^verbatim>\<open>branch_ref.commit.sha\<close>, the one thing the module reads off the branch.
  \<open>py_format\<close> is how an f-string renders a value that is not a string (on a string the
  model writes the rendering out, see \<open>format_value\<close>).
\<close>

record world =
  getenv :: "string \<Rightarrow> string option"
  py_format :: "json \<Rightarrow> string"
  Github :: "string \<Rightarrow> exn + obj"
  get_repo :: "obj \<Rightarrow> string \<Rightarrow> exn + obj"
  get_branch :: "obj \<Rightarrow> json \<Rightarrow> exn + string"
  GithubClient :: "string \<Rightarrow> exn + obj"
  GithubRepositoryReader :: "obj \<Rightarrow> string \<Rightarrow> string \<Rightarrow> bool \<Rightarrow> exn + obj"
  load_data :: "obj \<Rightarrow> string \<Rightarrow> exn + obj list"
  from_documents :: "obj list \<Rightarrow> bool \<Rightarrow> exn + obj"
  close :: "obj \<Rightarrow> exn option"
  OpenAI :: "string \<Rightarrow> exn + obj"
  as_query_engine :: "obj \<Rightarrow> nat \<Rightarrow> obj \<Rightarrow> exn + obj"
  query :: "obj \<Rightarrow> json \<Rightarrow> exn + query_result"

text \<open>Every call the module makes to the outside, and every line it prints, in order.\<close>

datatype event =
    Print string
  | Print_traceback
  | Call_Github string
  | Call_get_repo obj string
  | Call_get_branch obj json
  | Call_GithubClient string
  | Call_GithubRepositoryReader obj string string bool
  | Call_load_data obj string
  | Call_from_documents "obj list" bool
  | Call_close obj
  | Call_OpenAI string
  | Call_as_query_engine obj nat obj
  | Call_query obj json
  | Call_app_run string nat bool

text \<open>
  The state of the process: the module-level dictionary \<^verbatim>\<open>repo_cache\<close>, the trace of
  outside calls, and a counter of the entries into \<^verbatim>\<open>load_github_docs\<close> (instrumentation:
  the call counter of a mocked loader). The model runs one request at a time, so
  \<^verbatim>\<open>cache_lock\<close> is free at every \<^verbatim>\<open>with cache_lock\<close> and released when the block is left,
  by return or by exception; it is not part of the state.
\<close>

record state =
  repo_cache :: "string \<rightharpoonup> obj"
  trace :: "event list"
  loader_calls :: nat

type_synonym 'a outcome = "(exn + 'a) \<times> state"

definition emit :: "event \<Rightarrow> state \<Rightarrow> state" where
  "emit e s = s\<lparr>trace := trace s @ [e]\<rparr>"

text \<open>An outside call: it is recorded, then it raises or returns.\<close>

definition call :: "event \<Rightarrow> exn + 'a \<Rightarrow> state \<Rightarrow> 'a outcome" where
  "call e r s = (r, emit e s)"

text \<open>Sequencing: an exception ends the block with the state reached so far.\<close>

definition and_then :: "(state \<Rightarrow> 'a outcome) \<Rightarrow> ('a \<Rightarrow> state \<Rightarrow> 'b outcome) \<Rightarrow> state \<Rightarrow> 'b outcome" where
  "and_then m f s = (case m s of (Inl e, s') \<Rightarrow> (Inl e, s') | (Inr x, s') \<Rightarrow> f x s')"

definition returns :: "'a \<Rightarrow> state \<Rightarrow> 'a outcome" where
  "returns x s = (Inr x, s)"

definition raises :: "exn \<Rightarrow> state \<Rightarrow> 'a outcome" where
  "raises e s = (Inl e, s)"

definition lift :: "exn + 'a \<Rightarrow> state \<Rightarrow> 'a outcome" where
  "lift r s = (r, s)"

section \<open>load_github_docs\<close>

text \<open>
  Lines 32 to 35: the token is the argument, or else the environment variable; a missing
  or empty variable raises ValueError.
\<close>

definition resolve_token :: "world \<Rightarrow> string option \<Rightarrow> exn + string" where
  "resolve_token W github_token =
     (case github_token of
        Some t \<Rightarrow> Inr t
      | None \<Rightarrow>
          (case getenv W ''GITHUB_TOKEN'' of
             None \<Rightarrow> Inl (Exn ValueError ''GitHub token not found'')
           | Some t \<Rightarrow> if t = [] then Inl (Exn ValueError ''GitHub token not found'') else Inr t))"

text \<open>
  Lines 41 and 42: \<^verbatim>\<open>repo_name.split('/')[0]\<close> and \<^verbatim>\<open>repo_name.split('/')[1]\<close>. Only a
  string has \<^verbatim>\<open>split\<close>; element 0 always exists, element 1 only if there is a separator.
\<close>

definition owner_repo :: "json \<Rightarrow> exn + (string \<times> string)" where
  "owner_repo repo_name =
     (case repo_name of
        JStr s \<Rightarrow>
          (case py_split CHR ''/'' s of
             owner # repo # rest \<Rightarrow> Inr (owner, repo)
           | _ \<Rightarrow> Inl (Exn IndexError ''list index out of range''))
      | _ \<Rightarrow>
          Inl (Exn AttributeError
            (quoted (py_type_name repo_name) @ '' object has no attribute '' @ quoted ''split'')))"

text \<open>Lines 41 to 69: the rest of the \<^verbatim>\<open>try\<close> block once \<^verbatim>\<open>g\<close> is bound.\<close>

definition load_with_client ::
  "world \<Rightarrow> obj \<Rightarrow> string \<Rightarrow> json \<Rightarrow> json \<Rightarrow> state \<Rightarrow> (obj option) outcome" where
  "load_with_client W g github_token repo_name branch =
     and_then (lift (owner_repo repo_name)) (\<lambda>(owner, repo).
     and_then (call (Call_get_repo g (owner @ ''/'' @ repo))
                 (get_repo W g (owner @ ''/'' @ repo))) (\<lambda>repository.
     and_then (call (Call_get_branch repository branch)
                 (get_branch W repository branch)) (\<lambda>commit_sha.
     and_then (call (Call_GithubClient github_token)
                 (GithubClient W github_token)) (\<lambda>github_client.
     and_then (call (Call_GithubRepositoryReader github_client owner repo True)
                 (GithubRepositoryReader W github_client owner repo True)) (\<lambda>reader.
     and_then (call (Call_load_data reader commit_sha)
                 (load_data W reader commit_sha)) (\<lambda>documents.
     if documents = [] then returns None
     else
       and_then (call (Call_from_documents documents True)
                   (from_documents W documents True)) (\<lambda>index.
       returns (Some index))))))))"

text \<open>
  Lines 30 to 69, the \<^verbatim>\<open>try\<close> block: its outcome, together with the local variable \<^verbatim>\<open>g\<close>
  as the block leaves it (\<open>None\<close>: never assigned).
\<close>

definition try_block ::
  "world \<Rightarrow> json \<Rightarrow> string option \<Rightarrow> json \<Rightarrow> state \<Rightarrow> obj option \<times> (obj option) outcome" where
  "try_block W repo_name github_token branch s =
     (case resolve_token W github_token of
        Inl e \<Rightarrow> (None, (Inl e, s))
      | Inr tok \<Rightarrow>
          (case call (Call_Github tok) (Github W tok) s of
             (Inl e, s1) \<Rightarrow> (None, (Inl e, s1))
           | (Inr g, s1) \<Rightarrow> (Some g, load_with_client W g tok repo_name branch s1)))"

text \<open>Lines 71 to 74: \<^verbatim>\<open>except Exception\<close> prints two lines and returns \<^verbatim>\<open>None\<close>.\<close>

definition except_block :: "(obj option) outcome \<Rightarrow> (obj option) outcome" where
  "except_block r =
     (case r of
        (Inl e, s) \<Rightarrow>
          (Inr None,
           emit Print_traceback (emit (Print (''Error loading repository: '' @ str_exn e)) s))
      | (Inr v, s) \<Rightarrow> (Inr v, s))"

text \<open>
  Lines 75 and 76: \<^verbatim>\<open>finally: g.close()\<close>. Reading a local variable that was never
  assigned raises UnboundLocalError, and an exception raised in \<^verbatim>\<open>finally\<close> replaces the
  pending return value.
\<close>

definition finally_block :: "world \<Rightarrow> obj option \<Rightarrow> (obj option) outcome \<Rightarrow> (obj option) outcome" where
  "finally_block W g r =
     (case g of
        None \<Rightarrow>
          (Inl (Exn UnboundLocalError
             (''cannot access local variable '' @ quoted ''g'' @
              '' where it is not associated with a value'')),
           snd r)
      | Some c \<Rightarrow>
          (case call (Call_close c) (case close W c of Some e \<Rightarrow> Inl e | None \<Rightarrow> Inr ()) (snd r) of
             (Inl e, s) \<Rightarrow> (Inl e, s)
           | (Inr u, s) \<Rightarrow> (fst r, s)))"

definition load_github_docs ::
  "world \<Rightarrow> json \<Rightarrow> string option \<Rightarrow> json \<Rightarrow> state \<Rightarrow> (obj option) outcome" where
  "load_github_docs W repo_name github_token branch s =
     (case try_block W repo_name github_token branch (s\<lparr>loader_calls := Suc (loader_calls s)\<rparr>) of
        (g, r) \<Rightarrow> finally_block W g (except_block r))"

section \<open>get_or_create_index\<close>

text \<open>How \<^verbatim>\<open>f"{repo_name}:{branch}"\<close> renders one of its two fields.\<close>

definition format_value :: "world \<Rightarrow> json \<Rightarrow> string" where
  "format_value W v = (case v of JStr s \<Rightarrow> s | _ \<Rightarrow> py_format W v)"

definition cache_key :: "world \<Rightarrow> json \<Rightarrow> json \<Rightarrow> string" where
  "cache_key W repo_name branch = format_value W repo_name @ '':'' @ format_value W branch"

definition get_or_create_index ::
  "world \<Rightarrow> json \<Rightarrow> json \<Rightarrow> state \<Rightarrow> (obj option) outcome" where
  "get_or_create_index W repo_name branch s =
     (let k = cache_key W repo_name branch in
      if repo_cache s k = None then
        (case load_github_docs W repo_name None branch s of
           (Inl e, s1) \<Rightarrow> (Inl e, s1)
         | (Inr index, s1) \<Rightarrow>
             (let s2 = (case index of
                          Some i \<Rightarrow> s1\<lparr>repo_cache := (repo_cache s1)(k \<mapsto> i)\<rparr>
                        | None \<Rightarrow> s1)
              in (Inr (repo_cache s2 k), s2)))
      else (Inr (repo_cache s k), s))"

section \<open>The handlers and the start of the process\<close>

record http_response =
  status :: nat
  body :: json

text \<open>\<^verbatim>\<open>jsonify(d), code\<close>; a handler that returns \<^verbatim>\<open>jsonify(d)\<close> alone answers 200.\<close>

definition jsonify :: "(string \<times> json) list \<Rightarrow> nat \<Rightarrow> http_response" where
  "jsonify d code = \<lparr>status = code, body = JObj d\<rparr>"

text \<open>Line 106: \<^verbatim>\<open>not data or 'repo' not in data or 'query' not in data\<close>, left to right.\<close>

definition missing_parameters :: "json \<Rightarrow> exn + bool" where
  "missing_parameters data =
     (if \<not> truthy data then Inr True
      else
        (case py_contains ''repo'' data of
           Inl e \<Rightarrow> Inl e
         | Inr False \<Rightarrow> Inr True
         | Inr True \<Rightarrow>
             (case py_contains ''query'' data of
                Inl e \<Rightarrow> Inl e
              | Inr b \<Rightarrow> Inr (\<not> b))))"

text \<open>Lines 122 to 135: the query engine, the query and the answer.\<close>

definition answer_query :: "world \<Rightarrow> obj \<Rightarrow> json \<Rightarrow> state \<Rightarrow> http_response outcome" where
  "answer_query W index q =
     and_then (call (Call_OpenAI ''gpt-3.5-turbo'') (OpenAI W ''gpt-3.5-turbo'')) (\<lambda>llm.
     and_then (call (Call_as_query_engine index 3 llm) (as_query_engine W index 3 llm)) (\<lambda>query_engine.
     and_then (call (Call_query query_engine q) (query W query_engine q)) (\<lambda>response.
     returns (jsonify
       [(''response'', JStr (answer response)),
        (''sources'', JArr (map JStr (source_nodes response)))] 200))))"

text \<open>
  Lines 104 to 135, the \<^verbatim>\<open>try\<close> block of the handler. Its first argument is the outcome of
  \<^verbatim>\<open>request.get_json()\<close>, which is Flask's: the parsed body, or an exception.
\<close>

definition query_docs_try :: "world \<Rightarrow> exn + json \<Rightarrow> state \<Rightarrow> http_response outcome" where
  "query_docs_try W get_json =
     and_then (lift get_json) (\<lambda>data.
     and_then (lift (missing_parameters data)) (\<lambda>missing.
     if missing then returns (jsonify [(''error'', JStr ''Missing required parameters'')] 400)
     else
       and_then (lift (py_getitem data ''repo'')) (\<lambda>repo.
       and_then (lift (py_getitem data ''query'')) (\<lambda>q.
       and_then (lift (py_get data ''branch'' (JStr ''main''))) (\<lambda>branch.
       and_then (get_or_create_index W repo branch) (\<lambda>index.
       case index of
         None \<Rightarrow> returns (jsonify [(''error'', JStr ''Failed to load repository'')] 500)
       | Some i \<Rightarrow> answer_query W i q))))))"

text \<open>Lines 137 to 140: \<^verbatim>\<open>except Exception as e\<close> answers 500 with \<^verbatim>\<open>str(e)\<close>.\<close>

definition query_docs :: "world \<Rightarrow> exn + json \<Rightarrow> state \<Rightarrow> http_response \<times> state" where
  "query_docs W get_json s =
     (case query_docs_try W get_json s of
        (Inl e, s') \<Rightarrow> (jsonify [(''error'', JStr (str_exn e))] 500, s')
      | (Inr r, s') \<Rightarrow> (r, s'))"

definition health_check :: "state \<Rightarrow> http_response \<times> state" where
  "health_check s = (jsonify [(''status'', JStr ''healthy'')] 200, s)"

text \<open>
  Lines 147 to 155, the block run when the module is the main program. \<^verbatim>\<open>app.run\<close> is
  the call that binds the port and serves.
\<close>

definition required_vars :: "string list" where
  "required_vars = [''GITHUB_TOKEN'', ''OPENAI_API_KEY'']"

definition env_missing :: "world \<Rightarrow> string \<Rightarrow> bool" where
  "env_missing W var = (case getenv W var of None \<Rightarrow> True | Some v \<Rightarrow> v = [])"

definition missing_vars :: "world \<Rightarrow> string list" where
  "missing_vars W = filter (env_missing W) required_vars"

definition main_block :: "world \<Rightarrow> state \<Rightarrow> unit outcome" where
  "main_block W =
     (if missing_vars W \<noteq> [] then
        raises (Exn ValueError
          (''Missing required environment variables: '' @ py_join '', '' (missing_vars W)))
      else call (Call_app_run ''0.0.0.0'' 5000 True) (Inr ()))"

section \<open>Concrete scenarios\<close>

text \<open>
  Worlds and states on which the theorems below are run. In \<open>demo_world\<close> both
  environment variables are set, GitHub knows the repository \<^verbatim>\<open>octo/hello\<close>, the reader
  returns two documents and the query engine answers with two source nodes. The other
  worlds differ from it in one place each; \<open>loaded_state\<close> is the state of the process
  after the first query for \<^verbatim>\<open>octo/hello\<close> in \<open>demo_world\<close>.
\<close>

definition demo_world :: world where
  "demo_world =
     \<lparr>getenv = (\<lambda>v. if v = ''GITHUB_TOKEN'' then Some ''ghp_demo''
                     else if v = ''OPENAI_API_KEY'' then Some ''sk-demo'' else None),
      py_format = (\<lambda>v. py_type_name v),
      Github = (\<lambda>t. Inr 1),
      get_repo = (\<lambda>g n. if n = ''octo/hello'' then Inr 2 else Inl (Exn LibraryError ''404 Not Found'')),
      get_branch = (\<lambda>r b. Inr ''abc123''),
      GithubClient = (\<lambda>t. Inr 3),
      GithubRepositoryReader = (\<lambda>c ow rp v. Inr 4),
      load_data = (\<lambda>r sha. Inr [5, 6]),
      from_documents = (\<lambda>ds p. Inr 7),
      close = (\<lambda>g. None),
      OpenAI = (\<lambda>m. Inr 8),
      as_query_engine = (\<lambda>i k l. Inr 9),
      query = (\<lambda>e q. Inr \<lparr>answer = ''It greets.'', source_nodes = [''first'', ''second'']\<rparr>)\<rparr>"

definition no_token_world :: world where
  "no_token_world = demo_world\<lparr>getenv := (\<lambda>v. None)\<rparr>"

definition no_openai_key_world :: world where
  "no_openai_key_world =
     demo_world\<lparr>getenv := (\<lambda>v. if v = ''GITHUB_TOKEN'' then Some ''ghp_demo'' else None)\<rparr>"

definition empty_repo_world :: world where
  "empty_repo_world = demo_world\<lparr>load_data := (\<lambda>r sha. Inr [])\<rparr>"

definition fresh_state :: state where
  "fresh_state = \<lparr>repo_cache = Map.empty, trace = [], loader_calls = 0\<rparr>"

definition loaded_state :: state where
  "loaded_state =
     \<lparr>repo_cache = [''octo/hello:main'' \<mapsto> 7],
      trace = [Call_Github ''ghp_demo'', Call_get_repo 1 ''octo/hello'',
        Call_get_branch 2 (JStr ''main''), Call_GithubClient ''ghp_demo'',
        Call_GithubRepositoryReader 3 ''octo'' ''hello'' True,
        Call_load_data 4 ''abc123'', Call_from_documents [5, 6] True, Call_close 1],
      loader_calls = 1\<rparr>"

definition hello_request :: json where
  "hello_request = JObj [(''repo'', JStr ''octo/hello''), (''query'', JStr ''what is this?'')]"

section \<open>Facts about the building blocks\<close>

lemmas outcome_defs = and_then_def call_def lift_def returns_def raises_def emit_def

lemmas model_defs =
  load_github_docs_def try_block_def except_block_def finally_block_def load_with_client_def
  resolve_token_def owner_repo_def get_or_create_index_def cache_key_def format_value_def
  query_docs_def query_docs_try_def answer_query_def missing_parameters_def jsonify_def
  and_then_def call_def lift_def returns_def raises_def emit_def

subsection \<open>Splitting a repository name\<close>

lemma py_split_not_Nil: "py_split sep s \<noteq> []"
  by (induction s) auto

lemma length_py_split: "length (py_split sep s) = Suc (count_list s sep)"
proof (induction s)
  case Nil
  show ?case by simp
next
  case (Cons c cs)
  have "py_split sep cs \<noteq> []" by (rule py_split_not_Nil)
  with Cons show ?case by (cases "py_split sep cs") auto
qed

lemma py_split_no_sep: "sep \<notin> set s \<Longrightarrow> py_split sep s = [s]"
  by (induction s) auto

lemma py_split_append: "sep \<notin> set a \<Longrightarrow> py_split sep (a @ sep # b) = a # py_split sep b"
  by (induction a) auto

lemma split_at_first: "sep \<in> set s \<Longrightarrow> s = takeWhile (\<lambda>c. c \<noteq> sep) s @ sep # tl (dropWhile (\<lambda>c. c \<noteq> sep) s)"
  by (induction s) auto

lemma py_split_first:
  assumes "sep \<in> set s"
  shows "py_split sep s = takeWhile (\<lambda>c. c \<noteq> sep) s # py_split sep (tl (dropWhile (\<lambda>c. c \<noteq> sep) s))"
proof -
  let ?a = "takeWhile (\<lambda>c. c \<noteq> sep) s" and ?b = "tl (dropWhile (\<lambda>c. c \<noteq> sep) s)"
  have "sep \<notin> set ?a" by (auto dest: set_takeWhileD)
  then have "py_split sep (?a @ sep # ?b) = ?a # py_split sep ?b" by (rule py_split_append)
  with split_at_first [OF assms] show ?thesis by simp
qed

lemma hd_py_split: "hd (py_split sep s) = takeWhile (\<lambda>c. c \<noteq> sep) s"
  by (induction s) auto

subsection \<open>What the loader and the cache lookup leave alone\<close>

lemma load_with_client_frame:
  "load_with_client W g t rn b s = (r, s') \<Longrightarrow>
     repo_cache s' = repo_cache s \<and> loader_calls s' = loader_calls s"
  unfolding load_with_client_def outcome_defs
  by (auto split: sum.splits prod.splits if_splits)

lemma load_github_docs_cache:
  "load_github_docs W rn tok b s = (r, s') \<Longrightarrow> repo_cache s' = repo_cache s"
  unfolding load_github_docs_def try_block_def except_block_def finally_block_def
  by (auto simp: outcome_defs split: sum.splits prod.splits option.splits dest: load_with_client_frame)

lemma load_github_docs_counts:
  "load_github_docs W rn tok b s = (r, s') \<Longrightarrow> loader_calls s' = Suc (loader_calls s)"
  unfolding load_github_docs_def try_block_def except_block_def finally_block_def
  by (auto simp: outcome_defs split: sum.splits prod.splits option.splits dest: load_with_client_frame)

lemma get_or_create_index_hit:
  "repo_cache s (cache_key W repo_name branch) = Some i \<Longrightarrow>
     get_or_create_index W repo_name branch s = (Inr (Some i), s)"
  by (simp add: get_or_create_index_def)

lemma get_or_create_index_returns_entry:
  assumes "get_or_create_index W repo_name branch s = (r, s')"
    and "repo_cache s' (cache_key W repo_name branch) = Some i"
  shows "r = Inr (Some i)"
proof (cases "repo_cache s (cache_key W repo_name branch)")
  case (Some j)
  with assms show ?thesis by (simp add: get_or_create_index_def)
next
  case None
  obtain r1 s1 where l: "load_github_docs W repo_name None branch s = (r1, s1)"
    by (cases "load_github_docs W repo_name None branch s")
  have c: "repo_cache s1 = repo_cache s" by (rule load_github_docs_cache [OF l])
  show ?thesis
  proof (cases r1)
    case (Inl e)
    with assms None l c show ?thesis by (simp add: get_or_create_index_def)
  next
    case (Inr v)
    with assms None l c show ?thesis
      by (cases v) (auto simp: get_or_create_index_def Let_def)
  qed
qed

lemma get_or_create_index_other_keys:
  assumes "get_or_create_index W repo_name branch s = (r, s')"
    and "k \<noteq> cache_key W repo_name branch"
  shows "repo_cache s' k = repo_cache s k"
proof (cases "repo_cache s (cache_key W repo_name branch)")
  case (Some j)
  with assms show ?thesis by (simp add: get_or_create_index_def)
next
  case None
  obtain r1 s1 where l: "load_github_docs W repo_name None branch s = (r1, s1)"
    by (cases "load_github_docs W repo_name None branch s")
  have c: "repo_cache s1 = repo_cache s" by (rule load_github_docs_cache [OF l])
  show ?thesis
  proof (cases r1)
    case (Inl e)
    with assms None l c show ?thesis by (auto simp: get_or_create_index_def)
  next
    case (Inr v)
    with assms None l c show ?thesis
      by (cases v) (auto simp: get_or_create_index_def Let_def)
  qed
qed

lemma get_or_create_index_returns_lookup:
  assumes "get_or_create_index W repo_name branch s = (Inr v, s')"
  shows "v = repo_cache s' (cache_key W repo_name branch)"
  using assms
  by (auto simp: get_or_create_index_def Let_def split: if_splits prod.splits sum.splits)

subsection \<open>The handler on a JSON object that has both required keys\<close>

lemma map_of_Some_key: "map_of kvs k = Some v \<Longrightarrow> k \<in> fst ` set kvs"
  by (auto dest: map_of_SomeD intro: rev_image_eqI)

lemma query_docs_try_object:
  assumes "map_of kvs ''repo'' = Some repo" and "map_of kvs ''query'' = Some q"
  shows "query_docs_try W (Inr (JObj kvs)) s =
     (case get_or_create_index W repo
             (case map_of kvs ''branch'' of None \<Rightarrow> JStr ''main'' | Some b \<Rightarrow> b) s of
        (Inl e, s1) \<Rightarrow> (Inl e, s1)
      | (Inr None, s1) \<Rightarrow> (Inr (jsonify [(''error'', JStr ''Failed to load repository'')] 500), s1)
      | (Inr (Some i), s1) \<Rightarrow> answer_query W i q s1)"
proof -
  have "kvs \<noteq> []" using assms(1) by auto
  moreover have "''repo'' \<in> fst ` set kvs" "''query'' \<in> fst ` set kvs"
    using assms by (auto dest: map_of_Some_key)
  ultimately show ?thesis
    using assms
    by (simp add: query_docs_try_def missing_parameters_def and_then_def lift_def returns_def
        split: option.splits sum.splits prod.splits)
qed

lemma answer_query_success:
  assumes "OpenAI W ''gpt-3.5-turbo'' = Inr llm"
    and "as_query_engine W i 3 llm = Inr query_engine"
    and "query W query_engine q = Inr response"
  shows "answer_query W i q s =
     (Inr \<lparr>status = 200,
           body = JObj [(''response'', JStr (answer response)),
                        (''sources'', JArr (map JStr (source_nodes response)))]\<rparr>,
      s\<lparr>trace := trace s @ [Call_OpenAI ''gpt-3.5-turbo'', Call_as_query_engine i 3 llm,
                              Call_query query_engine q]\<rparr>)"
  using assms by (simp add: answer_query_def jsonify_def outcome_defs)

lemma get_json_exception_reaches_handler:
  "query_docs_try W (Inl e) s = (Inl e, s)"
  by (simp add: query_docs_try_def and_then_def lift_def)

lemma index_lookup_exception_reaches_handler:
  assumes "map_of kvs ''repo'' = Some repo" and "map_of kvs ''query'' = Some q"
    and "get_or_create_index W repo
           (case map_of kvs ''branch'' of None \<Rightarrow> JStr ''main'' | Some b \<Rightarrow> b) s = (Inl e, s1)"
  shows "query_docs_try W (Inr (JObj kvs)) s = (Inl e, s1)"
  using assms(3) by (simp add: query_docs_try_object [OF assms(1,2)])

lemma query_engine_exception_reaches_handler:
  assumes "map_of kvs ''repo'' = Some repo" and "map_of kvs ''query'' = Some q"
    and "get_or_create_index W repo
           (case map_of kvs ''branch'' of None \<Rightarrow> JStr ''main'' | Some b \<Rightarrow> b) s = (Inr (Some i), s1)"
    and "OpenAI W ''gpt-3.5-turbo'' = Inl e
         \<or> (\<exists>llm. OpenAI W ''gpt-3.5-turbo'' = Inr llm \<and>
               (as_query_engine W i 3 llm = Inl e
                \<or> (\<exists>qe. as_query_engine W i 3 llm = Inr qe \<and> query W qe q = Inl e)))"
  shows "\<exists>s2. query_docs_try W (Inr (JObj kvs)) s = (Inl e, s2)"
  using assms(3,4)
  by (auto simp: query_docs_try_object [OF assms(1,2)] answer_query_def outcome_defs)

subsection \<open>The loader's calls and its exits\<close>

lemma load_with_client_owner_repo_cong:
  assumes "owner_repo rn = owner_repo rn'"
  shows "load_with_client W g t rn b = load_with_client W g t rn' b"
  using assms by (simp add: load_with_client_def)

lemma load_github_docs_owner_repo_cong:
  assumes "owner_repo rn = owner_repo rn'"
  shows "load_github_docs W rn tok b st = load_github_docs W rn' tok b st"
  by (simp add: load_github_docs_def try_block_def load_with_client_owner_repo_cong [OF assms]
      split: sum.splits prod.splits)

lemma load_with_client_calls_get_repo:
  assumes "owner_repo rn = Inr (ow, rp)"
  shows "\<exists>rest. trace (snd (load_with_client W g t rn b s)) =
           trace s @ Call_get_repo g (ow @ ''/'' @ rp) # rest"
  using assms unfolding load_with_client_def outcome_defs
  by (auto split: sum.splits prod.splits if_splits)

lemma except_block_trace: "\<exists>evs. trace (snd (except_block r)) = trace (snd r) @ evs"
  unfolding except_block_def emit_def by (auto split: sum.splits prod.splits)

lemma finally_block_trace: "\<exists>evs. trace (snd (finally_block W g r)) = trace (snd r) @ evs"
  unfolding finally_block_def call_def emit_def by (auto split: sum.splits prod.splits option.splits)

lemma load_github_docs_calls_get_repo:
  assumes "resolve_token W tok = Inr t" and "Github W t = Inr g"
    and "owner_repo rn = Inr (ow, rp)"
  shows "\<exists>rest. trace (snd (load_github_docs W rn tok b st)) =
           trace st @ [Call_Github t, Call_get_repo g (ow @ ''/'' @ rp)] @ rest"
proof -
  let ?s0 = "emit (Call_Github t) (st\<lparr>loader_calls := Suc (loader_calls st)\<rparr>)"
  let ?r = "load_with_client W g t rn b ?s0"
  have l: "load_github_docs W rn tok b st = finally_block W (Some g) (except_block ?r)"
    using assms(1,2) by (simp add: load_github_docs_def try_block_def call_def)
  obtain r1 where 1: "trace (snd ?r) = trace ?s0 @ Call_get_repo g (ow @ ''/'' @ rp) # r1"
    using load_with_client_calls_get_repo [OF assms(3)] by blast
  obtain r2 where 2: "trace (snd (except_block ?r)) = trace (snd ?r) @ r2"
    using except_block_trace by blast
  obtain r3 where 3: "trace (snd (finally_block W (Some g) (except_block ?r))) =
      trace (snd (except_block ?r)) @ r3"
    using finally_block_trace by blast
  have "trace ?s0 = trace st @ [Call_Github t]" by (simp add: emit_def)
  with l 1 2 3 have "trace (snd (load_github_docs W rn tok b st)) =
      trace st @ [Call_Github t, Call_get_repo g (ow @ ''/'' @ rp)] @ (r1 @ r2 @ r3)"
    by simp
  then show ?thesis by blast
qed

lemma count_list_pos_mem: "0 < count_list xs x \<Longrightarrow> x \<in> set xs"
  by (induction xs) (auto split: if_splits)

lemma except_block_returns: "\<exists>v. fst (except_block r) = Inr v"
  unfolding except_block_def by (auto split: sum.splits prod.splits)

lemma load_github_docs_closes_bound_client:
  assumes "resolve_token W tok = Inr t" and "Github W t = Inr g" and "close W g = None"
  shows "\<exists>v s'. load_github_docs W rn tok b st = (Inr v, s') \<and>
           trace s' \<noteq> [] \<and> last (trace s') = Call_close g"
proof -
  let ?r = "except_block (load_with_client W g t rn b
              (emit (Call_Github t) (st\<lparr>loader_calls := Suc (loader_calls st)\<rparr>)))"
  have l: "load_github_docs W rn tok b st = finally_block W (Some g) ?r"
    using assms(1,2) by (simp add: load_github_docs_def try_block_def call_def)
  have f: "finally_block W (Some g) ?r = (fst ?r, emit (Call_close g) (snd ?r))"
    using assms(3) by (simp add: finally_block_def call_def)
  obtain v where v: "fst ?r = Inr v" using except_block_returns by blast
  have "load_github_docs W rn tok b st = (Inr v, emit (Call_close g) (snd ?r))"
    by (simp only: l f v)
  moreover have "trace (emit (Call_close g) (snd ?r)) \<noteq> []"
    and "last (trace (emit (Call_close g) (snd ?r))) = Call_close g"
    by (simp_all add: emit_def)
  ultimately show ?thesis by blast
qed

lemma load_github_docs_constructor_raises:
  assumes "resolve_token W tok = Inr t" and "Github W t = Inl e"
  shows "\<exists>msg. fst (load_github_docs W rn tok b st) = Inl (Exn UnboundLocalError msg)"
  using assms
  by (simp add: load_github_docs_def try_block_def call_def except_block_def finally_block_def)

subsection \<open>The start of the process\<close>

lemma missing_vars_cases:
  "missing_vars W =
     (if env_missing W ''GITHUB_TOKEN'' then [''GITHUB_TOKEN''] else []) @
     (if env_missing W ''OPENAI_API_KEY'' then [''OPENAI_API_KEY''] else [])"
  by (simp add: missing_vars_def required_vars_def)

lemma env_missing_iff: "env_missing W v \<longleftrightarrow> getenv W v = None \<or> getenv W v = Some []"
  by (simp add: env_missing_def split: option.splits)

lemma startup_with_env_serves:
  assumes "\<not> env_missing W ''GITHUB_TOKEN''" and "\<not> env_missing W ''OPENAI_API_KEY''"
  shows "main_block W s = (Inr (), s\<lparr>trace := trace s @ [Call_app_run ''0.0.0.0'' 5000 True]\<rparr>)"
  using assms unfolding main_block_def missing_vars_cases call_def emit_def by simp

subsection \<open>Two runs in the concrete worlds\<close>

lemma demo_first_call:
  "get_or_create_index demo_world (JStr ''octo/hello'') (JStr ''main'') fresh_state =
     (Inr (Some 7), loaded_state)"
  by (simp add: model_defs demo_world_def fresh_state_def loaded_state_def)

lemma no_token_lookup_raises:
  "get_or_create_index no_token_world (JStr ''octo/hello'') (JStr ''main'') fresh_state =
     (Inl (Exn UnboundLocalError
        (''cannot access local variable '' @ quoted ''g'' @
         '' where it is not associated with a value'')),
      fresh_state\<lparr>loader_calls := 1,
        trace := [Print ''Error loading repository: GitHub token not found'', Print_traceback]\<rparr>)"
  by (simp add: model_defs no_token_world_def demo_world_def fresh_state_def)

section \<open>The claims\<close>

text \<open>
  C1 (fails on the code). The claim: every exception inside \<^verbatim>\<open>load_github_docs\<close> becomes
  a \<^verbatim>\<open>None\<close> return and the GitHub client is closed on every exit, also when no token is
  available. What the code does when the token argument is \<^verbatim>\<open>None\<close> and the environment
  variable is unset or empty: the ValueError is raised before \<^verbatim>\<open>g\<close> is assigned, the
  \<^verbatim>\<open>except\<close> clause prints and returns \<^verbatim>\<open>None\<close>, and then \<^verbatim>\<open>finally: g.close()\<close> reads
  the unbound \<^verbatim>\<open>g\<close>: an UnboundLocalError leaves the function, and no client is closed.
\<close>

theorem load_github_docs_no_token_propagates:
  assumes "env_missing W ''GITHUB_TOKEN''"
  shows "load_github_docs W repo_name None branch s =
     (Inl (Exn UnboundLocalError
        (''cannot access local variable '' @ quoted ''g'' @
         '' where it is not associated with a value'')),
      s\<lparr>loader_calls := Suc (loader_calls s),
        trace := trace s @
          [Print ''Error loading repository: GitHub token not found'', Print_traceback]\<rparr>)"
  using assms
  by (simp add: load_github_docs_def try_block_def except_block_def finally_block_def
      resolve_token_def env_missing_def emit_def split: option.splits)

theorem load_github_docs_no_token_witness:
  "env_missing no_token_world ''GITHUB_TOKEN'' \<and>
   fst (load_github_docs no_token_world (JStr ''octo/hello'') None (JStr ''main'') fresh_state) =
     Inl (Exn UnboundLocalError
        (''cannot access local variable '' @ quoted ''g'' @
         '' where it is not associated with a value'')) \<and>
   trace (snd (load_github_docs no_token_world (JStr ''octo/hello'') None (JStr ''main'') fresh_state)) =
     [Print ''Error loading repository: GitHub token not found'', Print_traceback]"
proof -
  have h: "env_missing no_token_world ''GITHUB_TOKEN''"
    by (simp add: env_missing_def no_token_world_def)
  show ?thesis
    using h load_github_docs_no_token_propagates [OF h, of "JStr ''octo/hello''" "JStr ''main''" fresh_state]
    by (simp add: fresh_state_def)
qed

text \<open>
  C2. When a call of \<^verbatim>\<open>get_or_create_index\<close> has left an index under the key of
  \<open>(repo_name, branch)\<close>, that call returned this index, and a second call with the same
  arguments returns the same object and leaves the whole state as it is: the cache, the
  trace of outside calls and the counter of loader entries. The outside world of the
  second call may differ from the first one's in everything but how values are rendered.
\<close>

theorem second_get_or_create_index_is_cached:
  assumes "get_or_create_index W repo_name branch s = (r, s1)"
    and "repo_cache s1 (cache_key W repo_name branch) = Some i"
    and "py_format W' = py_format W"
  shows "r = Inr (Some i) \<and> get_or_create_index W' repo_name branch s1 = (Inr (Some i), s1)"
proof -
  have k: "cache_key W' repo_name branch = cache_key W repo_name branch"
    using assms(3) by (simp add: cache_key_def format_value_def split: json.split)
  have "get_or_create_index W' repo_name branch s1 = (Inr (Some i), s1)"
    using assms(2) k by (simp add: get_or_create_index_hit)
  moreover have "r = Inr (Some i)"
    using assms(1,2) by (rule get_or_create_index_returns_entry)
  ultimately show ?thesis by simp
qed

theorem second_get_or_create_index_witness:
  "get_or_create_index demo_world (JStr ''octo/hello'') (JStr ''main'') fresh_state =
     (Inr (Some 7), loaded_state) \<and>
   repo_cache loaded_state ''octo/hello:main'' = Some 7 \<and>
   get_or_create_index demo_world (JStr ''octo/hello'') (JStr ''main'') loaded_state =
     (Inr (Some 7), loaded_state)"
proof -
  have stored: "repo_cache loaded_state (cache_key demo_world (JStr ''octo/hello'') (JStr ''main'')) = Some 7"
    by (simp add: loaded_state_def cache_key_def format_value_def)
  show ?thesis
    using second_get_or_create_index_is_cached [OF demo_first_call stored refl] demo_first_call
    by (simp add: loaded_state_def)
qed

text \<open>
  C3. If the key of \<open>(repo, branch)\<close> is absent from the cache and the loader returns
  \<^verbatim>\<open>None\<close>, then \<^verbatim>\<open>get_or_create_index\<close> returns \<^verbatim>\<open>None\<close> and the cache is unchanged, and
  the handler of \<^verbatim>\<open>POST /query\<close>, on a body with these \<^verbatim>\<open>repo\<close>, \<^verbatim>\<open>query\<close> and branch
  (\<^verbatim>\<open>"main"\<close> when the key is missing), answers HTTP 500 with the body
  \<^verbatim>\<open>{"error": "Failed to load repository"}\<close>.
\<close>

theorem loader_none_answers_500:
  assumes "repo_cache s (cache_key W repo branch) = None"
    and "load_github_docs W repo None branch s = (Inr None, s1)"
    and "map_of kvs ''repo'' = Some repo" and "map_of kvs ''query'' = Some q"
    and "branch = (case map_of kvs ''branch'' of None \<Rightarrow> JStr ''main'' | Some b \<Rightarrow> b)"
  shows "get_or_create_index W repo branch s = (Inr None, s1) \<and>
         repo_cache s1 = repo_cache s \<and>
         query_docs W (Inr (JObj kvs)) s =
           (\<lparr>status = 500, body = JObj [(''error'', JStr ''Failed to load repository'')]\<rparr>, s1)"
proof -
  have c: "repo_cache s1 = repo_cache s" by (rule load_github_docs_cache [OF assms(2)])
  have g: "get_or_create_index W repo branch s = (Inr None, s1)"
    using assms(1,2) c by (simp add: get_or_create_index_def)
  have "query_docs W (Inr (JObj kvs)) s =
          (\<lparr>status = 500, body = JObj [(''error'', JStr ''Failed to load repository'')]\<rparr>, s1)"
    using g assms(5)
    by (simp add: query_docs_def query_docs_try_object [OF assms(3,4)] jsonify_def)
  with g c show ?thesis by simp
qed

theorem loader_none_answers_500_witness:
  "load_github_docs empty_repo_world (JStr ''octo/hello'') None (JStr ''main'') fresh_state =
     (Inr None, fresh_state\<lparr>loader_calls := 1,
        trace := [Call_Github ''ghp_demo'', Call_get_repo 1 ''octo/hello'',
          Call_get_branch 2 (JStr ''main''), Call_GithubClient ''ghp_demo'',
          Call_GithubRepositoryReader 3 ''octo'' ''hello'' True,
          Call_load_data 4 ''abc123'', Call_close 1]\<rparr>) \<and>
   status (fst (query_docs empty_repo_world (Inr hello_request) fresh_state)) = 500 \<and>
   body (fst (query_docs empty_repo_world (Inr hello_request) fresh_state)) =
     JObj [(''error'', JStr ''Failed to load repository'')] \<and>
   repo_cache (snd (query_docs empty_repo_world (Inr hello_request) fresh_state)) = Map.empty"
proof -
  let ?s1 = "fresh_state\<lparr>loader_calls := 1,
        trace := [Call_Github ''ghp_demo'', Call_get_repo 1 ''octo/hello'',
          Call_get_branch 2 (JStr ''main''), Call_GithubClient ''ghp_demo'',
          Call_GithubRepositoryReader 3 ''octo'' ''hello'' True,
          Call_load_data 4 ''abc123'', Call_close 1]\<rparr>"
  have absent: "repo_cache fresh_state (cache_key empty_repo_world (JStr ''octo/hello'') (JStr ''main'')) = None"
    by (simp add: fresh_state_def)
  have load: "load_github_docs empty_repo_world (JStr ''octo/hello'') None (JStr ''main'') fresh_state =
     (Inr None, ?s1)"
    by (simp add: model_defs empty_repo_world_def demo_world_def fresh_state_def)
  have r: "map_of [(''repo'', JStr ''octo/hello''), (''query'', JStr ''what is this?'')] ''repo'' = Some (JStr ''octo/hello'')"
    by simp
  have q: "map_of [(''repo'', JStr ''octo/hello''), (''query'', JStr ''what is this?'')] ''query'' = Some (JStr ''what is this?'')"
    by simp
  have b: "JStr ''main'' = (case map_of [(''repo'', JStr ''octo/hello''), (''query'', JStr ''what is this?'')] ''branch'' of None \<Rightarrow> JStr ''main'' | Some b \<Rightarrow> b)"
    by simp
  show ?thesis
    using loader_none_answers_500 [OF absent load r q b] load
    by (simp add: hello_request_def fresh_state_def)
qed




text \<open>
  C5. On a body with \<^verbatim>\<open>repo\<close> and \<^verbatim>\<open>query\<close> for which the index lookup yields an index,
  the handler creates the LLM with the model \<^verbatim>\<open>"gpt-3.5-turbo"\<close>, builds the query engine
  over the index with \<^verbatim>\<open>similarity_top_k=3\<close> and that LLM, runs the query, and, when these
  three calls return, answers HTTP 200 with \<^verbatim>\<open>response\<close> the string of the answer and
  \<^verbatim>\<open>sources\<close> the texts of the source nodes in the order the engine returned them.
\<close>

theorem query_success_answers_200:
  assumes "map_of kvs ''repo'' = Some repo" and "map_of kvs ''query'' = Some q"
    and "branch = (case map_of kvs ''branch'' of None \<Rightarrow> JStr ''main'' | Some b \<Rightarrow> b)"
    and "get_or_create_index W repo branch s = (Inr (Some i), s1)"
    and "OpenAI W ''gpt-3.5-turbo'' = Inr llm"
    and "as_query_engine W i 3 llm = Inr query_engine"
    and "query W query_engine q = Inr response"
  shows "query_docs W (Inr (JObj kvs)) s =
     (\<lparr>status = 200,
       body = JObj [(''response'', JStr (answer response)),
                    (''sources'', JArr (map JStr (source_nodes response)))]\<rparr>,
      s1\<lparr>trace := trace s1 @ [Call_OpenAI ''gpt-3.5-turbo'', Call_as_query_engine i 3 llm,
                                Call_query query_engine q]\<rparr>)"
  using assms(3,4)
  by (simp add: query_docs_def query_docs_try_object [OF assms(1,2)]
      answer_query_success [OF assms(5,6,7)])

theorem query_success_answers_200_witness:
  "query_docs demo_world (Inr hello_request) fresh_state =
     (\<lparr>status = 200,
       body = JObj [(''response'', JStr ''It greets.''),
                    (''sources'', JArr [JStr ''first'', JStr ''second''])]\<rparr>,
      loaded_state\<lparr>trace := trace loaded_state @
         [Call_OpenAI ''gpt-3.5-turbo'', Call_as_query_engine 7 3 8,
          Call_query 9 (JStr ''what is this?'')]\<rparr>)"
proof -
  have r: "map_of [(''repo'', JStr ''octo/hello''), (''query'', JStr ''what is this?'')] ''repo'' = Some (JStr ''octo/hello'')"
    by simp
  have q: "map_of [(''repo'', JStr ''octo/hello''), (''query'', JStr ''what is this?'')] ''query'' = Some (JStr ''what is this?'')"
    by simp
  have b: "JStr ''main'' = (case map_of [(''repo'', JStr ''octo/hello''), (''query'', JStr ''what is this?'')] ''branch'' of None \<Rightarrow> JStr ''main'' | Some b \<Rightarrow> b)"
    by simp
  have l: "OpenAI demo_world ''gpt-3.5-turbo'' = Inr 8" by (simp add: demo_world_def)
  have e: "as_query_engine demo_world 7 3 8 = Inr 9" by (simp add: demo_world_def)
  have a: "query demo_world 9 (JStr ''what is this?'') =
      Inr \<lparr>answer = ''It greets.'', source_nodes = [''first'', ''second'']\<rparr>"
    by (simp add: demo_world_def)
  show ?thesis
    using query_success_answers_200 [OF r q b demo_first_call l e a]
    by (simp add: hello_request_def)
qed

text \<open>
  C6. Whenever the \<^verbatim>\<open>try\<close> block of the handler ends with an exception \<open>e\<close> (raised by
  \<^verbatim>\<open>get_json\<close>, by the checks on the body, by the index lookup, or by the construction or
  the run of the query engine: see the three lemmas on exceptions reaching the handler),
  the handler answers HTTP 500 with the body \<^verbatim>\<open>{"error": str(e)}\<close>, the message of the
  exception itself.
\<close>

theorem handler_exception_answers_500:
  assumes "query_docs_try W get_json s = (Inl e, s')"
  shows "query_docs W get_json s =
     (\<lparr>status = 500, body = JObj [(''error'', JStr (str_exn e))]\<rparr>, s')"
  using assms by (simp add: query_docs_def jsonify_def)

theorem handler_exception_answers_500_witness:
  "query_docs no_token_world (Inr hello_request) fresh_state =
     (\<lparr>status = 500,
       body = JObj [(''error'', JStr (''cannot access local variable '' @ quoted ''g'' @
                        '' where it is not associated with a value''))]\<rparr>,
      fresh_state\<lparr>loader_calls := 1,
        trace := [Print ''Error loading repository: GitHub token not found'', Print_traceback]\<rparr>)"
proof -
  have r: "map_of [(''repo'', JStr ''octo/hello''), (''query'', JStr ''what is this?'')] ''repo'' = Some (JStr ''octo/hello'')"
    by simp
  have q: "map_of [(''repo'', JStr ''octo/hello''), (''query'', JStr ''what is this?'')] ''query'' = Some (JStr ''what is this?'')"
    by simp
  have t: "query_docs_try no_token_world (Inr hello_request) fresh_state =
     (Inl (Exn UnboundLocalError
        (''cannot access local variable '' @ quoted ''g'' @
         '' where it is not associated with a value'')),
      fresh_state\<lparr>loader_calls := 1,
        trace := [Print ''Error loading repository: GitHub token not found'', Print_traceback]\<rparr>)"
    unfolding hello_request_def
    by (rule index_lookup_exception_reaches_handler [OF r q]) (simp add: no_token_lookup_raises)
  show ?thesis
    using handler_exception_answers_500 [OF t] by simp
qed

text \<open>
  C7. A body with \<^verbatim>\<open>repo\<close> and \<^verbatim>\<open>query\<close> and no \<^verbatim>\<open>branch\<close> is handled exactly as the same
  body with \<^verbatim>\<open>"branch": "main"\<close>: the index is looked up for the branch \<^verbatim>\<open>"main"\<close>. For
  strings \<open>repo_name\<close> and \<open>branch\<close> the cache key is \<open>repo_name @ '':'' @ branch\<close>:
  \<^verbatim>\<open>get_or_create_index\<close> changes the cache at no other key, returns the entry under that
  key, and returns it without any effect when it is already there.
\<close>

theorem branch_default_and_cache_key:
  assumes "map_of kvs ''repo'' = Some repo" and "map_of kvs ''query'' = Some q"
    and "map_of kvs ''branch'' = None"
  shows "query_docs W (Inr (JObj kvs)) s =
           query_docs W (Inr (JObj (kvs @ [(''branch'', JStr ''main'')]))) s \<and>
         query_docs_try W (Inr (JObj kvs)) s =
           and_then (get_or_create_index W repo (JStr ''main''))
             (\<lambda>index. case index of
                 None \<Rightarrow> returns (jsonify [(''error'', JStr ''Failed to load repository'')] 500)
               | Some i \<Rightarrow> answer_query W i q) s \<and>
         cache_key W (JStr repo_name) (JStr branch) = repo_name @ '':'' @ branch \<and>
         (\<forall>r s'. get_or_create_index W (JStr repo_name) (JStr branch) s = (r, s') \<longrightarrow>
            (\<forall>k. k \<noteq> repo_name @ '':'' @ branch \<longrightarrow> repo_cache s' k = repo_cache s k) \<and>
            (\<forall>v. r = Inr v \<longrightarrow> v = repo_cache s' (repo_name @ '':'' @ branch))) \<and>
         (\<forall>i. repo_cache s (repo_name @ '':'' @ branch) = Some i \<longrightarrow>
            get_or_create_index W (JStr repo_name) (JStr branch) s = (Inr (Some i), s))"
proof -
  let ?kvs' = "kvs @ [(''branch'', JStr ''main'')]"
  have k: "cache_key W (JStr repo_name) (JStr branch) = repo_name @ '':'' @ branch"
    by (simp add: cache_key_def format_value_def)
  have r': "map_of ?kvs' ''repo'' = Some repo" and q': "map_of ?kvs' ''query'' = Some q"
    using assms(1,2) by (simp_all add: map_add_Some_iff)
  have b': "map_of ?kvs' ''branch'' = Some (JStr ''main'')"
    using assms(3) by (simp add: map_add_Some_iff)
  have t: "query_docs_try W (Inr (JObj kvs)) s = query_docs_try W (Inr (JObj ?kvs')) s"
    by (simp only: query_docs_try_object [OF assms(1,2)] query_docs_try_object [OF r' q']
        assms(3) b' option.case)
  have 1: "query_docs W (Inr (JObj kvs)) s = query_docs W (Inr (JObj ?kvs')) s"
    by (simp add: query_docs_def t)
  have 2: "query_docs_try W (Inr (JObj kvs)) s =
           and_then (get_or_create_index W repo (JStr ''main''))
             (\<lambda>index. case index of
                 None \<Rightarrow> returns (jsonify [(''error'', JStr ''Failed to load repository'')] 500)
               | Some i \<Rightarrow> answer_query W i q) s"
    by (simp add: query_docs_try_object [OF assms(1,2)] assms(3) and_then_def returns_def
        split: prod.splits sum.splits option.splits)
  have 3: "\<forall>r s'. get_or_create_index W (JStr repo_name) (JStr branch) s = (r, s') \<longrightarrow>
            (\<forall>k. k \<noteq> repo_name @ '':'' @ branch \<longrightarrow> repo_cache s' k = repo_cache s k) \<and>
            (\<forall>v. r = Inr v \<longrightarrow> v = repo_cache s' (repo_name @ '':'' @ branch))"
    using get_or_create_index_other_keys [of W "JStr repo_name" "JStr branch" s]
      get_or_create_index_returns_lookup [of W "JStr repo_name" "JStr branch" s]
    unfolding k by blast
  have 4: "\<forall>i. repo_cache s (repo_name @ '':'' @ branch) = Some i \<longrightarrow>
            get_or_create_index W (JStr repo_name) (JStr branch) s = (Inr (Some i), s)"
    using get_or_create_index_hit [of s W "JStr repo_name" "JStr branch"] unfolding k by blast
  from 1 2 k 3 4 show ?thesis by blast
qed

theorem branch_default_and_cache_key_witness:
  "query_docs demo_world (Inr hello_request) fresh_state =
     query_docs demo_world
       (Inr (JObj [(''repo'', JStr ''octo/hello''), (''query'', JStr ''what is this?''),
                   (''branch'', JStr ''main'')])) fresh_state \<and>
   cache_key demo_world (JStr ''octo/hello'') (JStr ''main'') = ''octo/hello:main'' \<and>
   get_or_create_index demo_world (JStr ''octo/hello'') (JStr ''main'') loaded_state =
     (Inr (Some 7), loaded_state)"
proof -
  have r: "map_of [(''repo'', JStr ''octo/hello''), (''query'', JStr ''what is this?'')] ''repo'' = Some (JStr ''octo/hello'')"
    by simp
  have q: "map_of [(''repo'', JStr ''octo/hello''), (''query'', JStr ''what is this?'')] ''query'' = Some (JStr ''what is this?'')"
    by simp
  have b: "map_of [(''repo'', JStr ''octo/hello''), (''query'', JStr ''what is this?'')] ''branch'' = None"
    by simp
  have c: "repo_cache loaded_state (''octo/hello'' @ '':'' @ ''main'') = Some 7"
    by (simp add: loaded_state_def)
  note fresh = branch_default_and_cache_key [OF r q b, of demo_world fresh_state "''octo/hello''" "''main''"]
  note loaded = branch_default_and_cache_key [OF r q b, of demo_world loaded_state "''octo/hello''" "''main''"]
  have 1: "query_docs demo_world (Inr hello_request) fresh_state =
     query_docs demo_world
       (Inr (JObj [(''repo'', JStr ''octo/hello''), (''query'', JStr ''what is this?''),
                   (''branch'', JStr ''main'')])) fresh_state"
    using fresh [THEN conjunct1] by (simp only: hello_request_def append.simps)
  have 2: "cache_key demo_world (JStr ''octo/hello'') (JStr ''main'') = ''octo/hello:main''"
    using fresh [THEN conjunct2, THEN conjunct2, THEN conjunct1] by simp
  have 3: "get_or_create_index demo_world (JStr ''octo/hello'') (JStr ''main'') loaded_state =
     (Inr (Some 7), loaded_state)"
    by (rule loaded [THEN conjunct2, THEN conjunct2, THEN conjunct2, THEN conjunct2,
          THEN spec, THEN mp, OF c])
  from 1 2 3 show ?thesis by (intro conjI)
qed

text \<open>
  C8. \<^verbatim>\<open>GET /health\<close> answers HTTP 200 with the body \<^verbatim>\<open>{"status": "healthy"}\<close> in every
  state of the process, reads nothing of the cache, the environment or the outside, and
  leaves the state as it was.
\<close>

theorem health_check_always_healthy:
  "health_check s = (\<lparr>status = 200, body = JObj [(''status'', JStr ''healthy'')]\<rparr>, s)"
  by (simp add: health_check_def jsonify_def)

text \<open>
  C9. When the module is run as the main program and \<^verbatim>\<open>GITHUB_TOKEN\<close> or
  \<^verbatim>\<open>OPENAI_API_KEY\<close> is unset, a ValueError is raised whose message is
  \<^verbatim>\<open>Missing required environment variables:\<close> followed by the names of the required
  variables that are unset or empty, in the order GITHUB_TOKEN, OPENAI_API_KEY, joined by
  a comma and a space; the state is unchanged, so \<^verbatim>\<open>app.run\<close>, which binds the port, has
  not been called.
\<close>

theorem startup_missing_env_raises:
  assumes "getenv W ''GITHUB_TOKEN'' = None \<or> getenv W ''OPENAI_API_KEY'' = None"
  shows "main_block W s =
           (Inl (Exn ValueError
              (''Missing required environment variables: '' @ py_join '', '' (missing_vars W))), s) \<and>
         missing_vars W =
           (if getenv W ''GITHUB_TOKEN'' = None \<or> getenv W ''GITHUB_TOKEN'' = Some []
            then [''GITHUB_TOKEN''] else []) @
           (if getenv W ''OPENAI_API_KEY'' = None \<or> getenv W ''OPENAI_API_KEY'' = Some []
            then [''OPENAI_API_KEY''] else []) \<and>
         missing_vars W \<noteq> []"
proof -
  have e: "env_missing W ''GITHUB_TOKEN'' \<or> env_missing W ''OPENAI_API_KEY''"
    using assms unfolding env_missing_iff by blast
  have m: "missing_vars W \<noteq> []"
    using e unfolding missing_vars_cases by auto
  have 1: "main_block W s =
           (Inl (Exn ValueError
              (''Missing required environment variables: '' @ py_join '', '' (missing_vars W))), s)"
    using m by (simp add: main_block_def raises_def)
  have 2: "missing_vars W =
           (if getenv W ''GITHUB_TOKEN'' = None \<or> getenv W ''GITHUB_TOKEN'' = Some []
            then [''GITHUB_TOKEN''] else []) @
           (if getenv W ''OPENAI_API_KEY'' = None \<or> getenv W ''OPENAI_API_KEY'' = Some []
            then [''OPENAI_API_KEY''] else [])"
    unfolding missing_vars_cases env_missing_iff by (rule refl)
  from 1 2 m show ?thesis by (intro conjI)
qed

theorem startup_missing_env_witness:
  "getenv no_openai_key_world ''OPENAI_API_KEY'' = None \<and>
   main_block no_openai_key_world fresh_state =
     (Inl (Exn ValueError ''Missing required environment variables: OPENAI_API_KEY''), fresh_state) \<and>
   main_block no_token_world fresh_state =
     (Inl (Exn ValueError ''Missing required environment variables: GITHUB_TOKEN, OPENAI_API_KEY''),
      fresh_state)"
proof -
  have k: "getenv no_openai_key_world ''OPENAI_API_KEY'' = None"
    by (simp add: no_openai_key_world_def)
  have h: "getenv no_openai_key_world ''GITHUB_TOKEN'' = None \<or>
           getenv no_openai_key_world ''OPENAI_API_KEY'' = None"
    using k by (rule disjI2)
  have k2: "getenv no_token_world ''GITHUB_TOKEN'' = None"
    by (simp add: no_token_world_def)
  have h2: "getenv no_token_world ''GITHUB_TOKEN'' = None \<or>
           getenv no_token_world ''OPENAI_API_KEY'' = None"
    using k2 by (rule disjI1)
  have g: "getenv no_openai_key_world ''GITHUB_TOKEN'' = Some ''ghp_demo''"
    by (simp add: no_openai_key_world_def)
  have k3: "getenv no_token_world ''OPENAI_API_KEY'' = None"
    by (simp add: no_token_world_def)
  have m: "missing_vars no_openai_key_world = [''OPENAI_API_KEY'']"
    unfolding missing_vars_cases env_missing_iff k g by simp
  have m2: "missing_vars no_token_world = [''GITHUB_TOKEN'', ''OPENAI_API_KEY'']"
    unfolding missing_vars_cases env_missing_iff k2 k3 by simp
  have 1: "main_block no_openai_key_world fresh_state =
     (Inl (Exn ValueError ''Missing required environment variables: OPENAI_API_KEY''), fresh_state)"
    using startup_missing_env_raises [OF h, of fresh_state, THEN conjunct1] unfolding m by simp
  have 2: "main_block no_token_world fresh_state =
     (Inl (Exn ValueError ''Missing required environment variables: GITHUB_TOKEN, OPENAI_API_KEY''),
      fresh_state)"
    using startup_missing_env_raises [OF h2, of fresh_state, THEN conjunct1] unfolding m2 by simp
  from k 1 2 show ?thesis by (intro conjI)
qed

text \<open>
  C10. For a repository name with two or more \<^verbatim>\<open>/\<close>, the split step does not fail: the
  owner is the text before the first \<^verbatim>\<open>/\<close>, the repository is the text between the first
  and the second, and at least one further segment is dropped. The loader behaves exactly
  as on the name \<open>owner @ ''/'' @ repo\<close>, and once a token is resolved and the PyGithub
  client is built, its next call to the outside is \<^verbatim>\<open>g.get_repo\<close> on that name.
\<close>

theorem multi_segment_repo_name:
  assumes "2 \<le> count_list s CHR ''/''"
    and "owner = takeWhile (\<lambda>c. c \<noteq> CHR ''/'') s"
    and "repo = takeWhile (\<lambda>c. c \<noteq> CHR ''/'') (tl (dropWhile (\<lambda>c. c \<noteq> CHR ''/'') s))"
  shows "owner_repo (JStr s) = Inr (owner, repo) \<and>
         (\<exists>rest. rest \<noteq> [] \<and> py_split CHR ''/'' s = owner # repo # rest) \<and>
         load_github_docs W (JStr s) github_token branch st =
           load_github_docs W (JStr (owner @ ''/'' @ repo)) github_token branch st \<and>
         (\<forall>t g. resolve_token W github_token = Inr t \<longrightarrow> Github W t = Inr g \<longrightarrow>
            (\<exists>rest. trace (snd (load_github_docs W (JStr s) github_token branch st)) =
               trace st @ [Call_Github t, Call_get_repo g (owner @ ''/'' @ repo)] @ rest))"
proof -
  have mem: "CHR ''/'' \<in> set s"
    using assms(1) by (intro count_list_pos_mem) simp
  have o: "owner_repo (JStr s) = Inr (owner, repo)"
  proof -
    have 1: "py_split CHR ''/'' s = owner # py_split CHR ''/'' (tl (dropWhile (\<lambda>c. c \<noteq> CHR ''/'') s))"
      unfolding assms(2) by (rule py_split_first [OF mem])
    obtain x xs where 2: "py_split CHR ''/'' (tl (dropWhile (\<lambda>c. c \<noteq> CHR ''/'') s)) = x # xs"
      using py_split_not_Nil by (cases "py_split CHR ''/'' (tl (dropWhile (\<lambda>c. c \<noteq> CHR ''/'') s))") auto
    have "hd (py_split CHR ''/'' (tl (dropWhile (\<lambda>c. c \<noteq> CHR ''/'') s))) = repo"
      unfolding assms(3) by (rule hd_py_split)
    with 2 have "x = repo" by simp
    with 1 2 show ?thesis by (simp add: owner_repo_def)
  qed
  have len: "3 \<le> length (py_split CHR ''/'' s)"
    using assms(1) by (simp add: length_py_split)
  have segs: "\<exists>rest. rest \<noteq> [] \<and> py_split CHR ''/'' s = owner # repo # rest"
  proof (cases "py_split CHR ''/'' s")
    case Nil
    with len show ?thesis by simp
  next
    case (Cons a as)
    show ?thesis
    proof (cases as)
      case Nil
      with Cons len show ?thesis by simp
    next
      case (Cons b bs)
      with \<open>py_split CHR ''/'' s = a # as\<close> o len show ?thesis
        by (auto simp: owner_repo_def)
    qed
  qed
  have no: "CHR ''/'' \<notin> set owner" and nr: "CHR ''/'' \<notin> set repo"
    unfolding assms(2,3) by (auto dest: set_takeWhileD)
  have two: "owner_repo (JStr (owner @ ''/'' @ repo)) = Inr (owner, repo)"
    using no nr by (simp add: owner_repo_def py_split_append py_split_no_sep)
  have same: "load_github_docs W (JStr s) github_token branch st =
           load_github_docs W (JStr (owner @ ''/'' @ repo)) github_token branch st"
    by (rule load_github_docs_owner_repo_cong) (simp only: o two)
  have calls: "\<forall>t g. resolve_token W github_token = Inr t \<longrightarrow> Github W t = Inr g \<longrightarrow>
            (\<exists>rest. trace (snd (load_github_docs W (JStr s) github_token branch st)) =
               trace st @ [Call_Github t, Call_get_repo g (owner @ ''/'' @ repo)] @ rest)"
    using load_github_docs_calls_get_repo [OF _ _ o] by blast
  from o segs same calls show ?thesis by (intro conjI)
qed

theorem multi_segment_repo_name_witness:
  "2 \<le> count_list ''octo/hello/docs'' CHR ''/'' \<and>
   owner_repo (JStr ''octo/hello/docs'') = Inr (''octo'', ''hello'') \<and>
   load_github_docs demo_world (JStr ''octo/hello/docs'') None (JStr ''main'') fresh_state =
     load_github_docs demo_world (JStr ''octo/hello'') None (JStr ''main'') fresh_state \<and>
   take 2 (trace (snd (load_github_docs demo_world (JStr ''octo/hello/docs'') None (JStr ''main'')
      fresh_state))) = [Call_Github ''ghp_demo'', Call_get_repo 1 ''octo/hello'']"
proof -
  have h: "2 \<le> count_list ''octo/hello/docs'' CHR ''/''" by simp
  have ow: "''octo'' = takeWhile (\<lambda>c. c \<noteq> CHR ''/'') ''octo/hello/docs''" by simp
  have rp: "''hello'' =
      takeWhile (\<lambda>c. c \<noteq> CHR ''/'') (tl (dropWhile (\<lambda>c. c \<noteq> CHR ''/'') ''octo/hello/docs''))"
    by simp
  have tok: "resolve_token demo_world None = Inr ''ghp_demo''"
    by (simp add: resolve_token_def demo_world_def)
  have g: "Github demo_world ''ghp_demo'' = Inr 1"
    by (simp add: demo_world_def)
  note t = multi_segment_repo_name [OF h ow rp, of demo_world None "JStr ''main''" fresh_state]
  have 1: "owner_repo (JStr ''octo/hello/docs'') = Inr (''octo'', ''hello'')"
    by (rule t [THEN conjunct1])
  have 2: "load_github_docs demo_world (JStr ''octo/hello/docs'') None (JStr ''main'') fresh_state =
     load_github_docs demo_world (JStr ''octo/hello'') None (JStr ''main'') fresh_state"
    using t [THEN conjunct2, THEN conjunct2, THEN conjunct1] by (simp only: append.simps)
  obtain rest where
    "trace (snd (load_github_docs demo_world (JStr ''octo/hello/docs'') None (JStr ''main'')
        fresh_state)) =
     trace fresh_state @ [Call_Github ''ghp_demo'', Call_get_repo 1 (''octo'' @ ''/'' @ ''hello'')] @ rest"
    using t [THEN conjunct2, THEN conjunct2, THEN conjunct2, THEN spec, THEN spec,
        THEN mp, THEN mp, OF tok g] by blast
  then have 3: "take 2 (trace (snd (load_github_docs demo_world (JStr ''octo/hello/docs'') None
      (JStr ''main'') fresh_state))) = [Call_Github ''ghp_demo'', Call_get_repo 1 ''octo/hello'']"
    by (simp add: fresh_state_def)
  from h 1 2 3 show ?thesis by (intro conjI)
qed

end
